theory Spec2Isabelle
  imports Complex_Main "HOL-Library.Multiset"
begin

section \<open>Data model\<close>

text \<open>
  The notebook \<^verbatim>\<open>train_featurize_train_tabular_data.ipynb\<close> works on pandas
  DataFrames. A frame is modelled by its row labels (\<open>index\<close>), its column labels
  (\<open>columns\<close>) and its cells, one list per row (\<open>rows\<close>). Cells and importance
  scores are float64 in the notebook; the claims below only compare and copy them, so
  they are modelled as reals.
\<close>

record dataframe =
  index :: "nat list"
  columns :: "string list"
  rows :: "real list list"

text \<open>\<^verbatim>\<open>data.shape\<close>: (number of rows, number of columns).\<close>

definition shape :: "dataframe \<Rightarrow> nat \<times> nat" where
  "shape data = (length (rows data), length (columns data))"

text \<open>Every row has one cell per column, and one row label per row.\<close>

definition wf_frame :: "dataframe \<Rightarrow> bool" where
  "wf_frame data \<longleftrightarrow>
     length (index data) = length (rows data) \<and>
     list_all (\<lambda>r. length r = length (columns data)) (rows data)"

datatype error =
  KeyError "string list"
| ValueError

section \<open>Pruning: \<^verbatim>\<open>remove_features\<close>\<close>

text \<open>
  \<^verbatim>\<open>DataFrame.drop(labels, axis=1, inplace=False, errors="raise")\<close> of pandas:
  labels that are no column raise KeyError; otherwise every column whose label is
  listed is left out. With \<^verbatim>\<open>inplace=False\<close> (the default) the receiver is left
  as it is and the reduced frame is the return value; with \<^verbatim>\<open>inplace=True\<close> the
  receiver becomes the reduced frame and None is returned. The result is the pair
  (receiver after the call, return value).
\<close>

definition keep_cells :: "string list \<Rightarrow> string list \<Rightarrow> 'a list \<Rightarrow> 'a list" where
  "keep_cells labels cols r = map snd (filter (\<lambda>p. fst p \<notin> set labels) (zip cols r))"

definition reduced :: "dataframe \<Rightarrow> string list \<Rightarrow> dataframe" where
  "reduced self labels =
     self\<lparr>columns := filter (\<lambda>c. c \<notin> set labels) (columns self),
          rows := map (keep_cells labels (columns self)) (rows self)\<rparr>"

definition drop_columns ::
  "dataframe \<Rightarrow> string list \<Rightarrow> bool \<Rightarrow> error + (dataframe \<times> dataframe option)" where
  "drop_columns self labels inplace =
     (let missing = filter (\<lambda>l. l \<notin> set (columns self)) labels in
      if missing \<noteq> [] then Inl (KeyError missing)
      else if inplace then Inr (reduced self labels, None)
      else Inr (self, Some (reduced self labels)))"

text \<open>
  The loop of \<^verbatim>\<open>remove_features\<close>:
  \<^verbatim>\<open>
  features_to_remove = []
  for index, pair in enumerate(list(zip(data.columns, lst))):
      if pair[1] <= threshold:
          features_to_remove.append(pair[0])
  \<close>
\<close>

fun collect_features :: "(string \<times> real) list \<Rightarrow> real \<Rightarrow> string list \<Rightarrow> string list" where
  "collect_features [] threshold features_to_remove = features_to_remove"
| "collect_features (pair # pairs) threshold features_to_remove =
     (if snd pair \<le> threshold
      then collect_features pairs threshold (features_to_remove @ [fst pair])
      else collect_features pairs threshold features_to_remove)"

definition features_to_remove :: "real list \<Rightarrow> dataframe \<Rightarrow> real \<Rightarrow> string list" where
  "features_to_remove lst data threshold =
     collect_features (zip (columns data) lst) threshold []"

text \<open>
  \<^verbatim>\<open>
  def remove_features(lst, data, threshold):
      ...
      if features_to_remove:
          data.drop(features_to_remove, axis=1)
  \<close>
  The call of \<^verbatim>\<open>drop\<close> passes no \<^verbatim>\<open>inplace\<close> and its return value is bound to
  nothing. The function has no \<^verbatim>\<open>return\<close>: it returns None (\<open>()\<close>). The model
  returns that value together with the frame that \<^verbatim>\<open>data\<close> refers to after the call
  (\<open>Inr\<close>), or the exception (\<open>Inl\<close>).
\<close>

definition remove_features ::
  "real list \<Rightarrow> dataframe \<Rightarrow> real \<Rightarrow> error + (unit \<times> dataframe)" where
  "remove_features lst data threshold =
     (let to_remove = features_to_remove lst data threshold in
      if to_remove \<noteq> [] then
        (case drop_columns data to_remove False of
           Inl e \<Rightarrow> Inl e
         | Inr (data', returned) \<Rightarrow> Inr ((), data'))
      else Inr ((), data))"

text \<open>
  The cell that prunes the three splits:
  \<^verbatim>\<open>
  remove_features(lst=feature_importances_xgboost, data=X_train, threshold=threshold)
  remove_features(lst=feature_importances_xgboost, data=X_val, threshold=threshold)
  remove_features(lst=feature_importances_xgboost, data=X_test, threshold=threshold)
  \<close>
  An exception in one call skips the calls after it.
\<close>

definition prune_cell ::
  "real list \<Rightarrow> dataframe \<Rightarrow> dataframe \<Rightarrow> dataframe \<Rightarrow> real
     \<Rightarrow> error + (dataframe \<times> dataframe \<times> dataframe)" where
  "prune_cell lst X_train X_val X_test threshold =
     (case remove_features lst X_train threshold of
        Inl e \<Rightarrow> Inl e
      | Inr (_, X_train') \<Rightarrow>
          (case remove_features lst X_val threshold of
             Inl e \<Rightarrow> Inl e
           | Inr (_, X_val') \<Rightarrow>
               (case remove_features lst X_test threshold of
                  Inl e \<Rightarrow> Inl e
                | Inr (_, X_test') \<Rightarrow> Inr (X_train', X_val', X_test'))))"

section \<open>Ranking: \<^verbatim>\<open>show_ranked_feature_importance_list\<close>\<close>

text \<open>
  Python's \<^verbatim>\<open>sorted(xs, key=f, reverse=r)\<close> is a stable sort. With
  \<^verbatim>\<open>reverse=True\<close> CPython reverses the list, sorts it stably in ascending key order
  and reverses the result, which keeps elements of equal key in their original order.
  \<open>sort_key\<close> is HOL's stable insertion sort; a stable sort has one result only, so it
  stands for CPython's merge sort.
\<close>

definition sorted_py :: "('a \<Rightarrow> real) \<Rightarrow> bool \<Rightarrow> 'a list \<Rightarrow> 'a list" where
  "sorted_py key reverse xs =
     (if reverse then rev (sort_key key (rev xs)) else sort_key key xs)"

text \<open>
  \<^verbatim>\<open>
  def show_ranked_feature_importance_list(scores, data):
      lst = list(zip(data.columns, scores))
      ranked_lst = sorted(lst, key=lambda t: t[1], reverse=True)
      print(pd.DataFrame(ranked_lst, columns=["Feature", "Importance Score"]))
  \<close>
  The model returns the rows of the table that is printed.
\<close>

definition show_ranked_feature_importance_list ::
  "real list \<Rightarrow> dataframe \<Rightarrow> (string \<times> real) list" where
  "show_ranked_feature_importance_list scores data =
     (let lst = zip (columns data) scores;
          ranked_lst = sorted_py snd True lst
      in ranked_lst)"

section \<open>Splitting: \<^verbatim>\<open>train_test_split\<close>, twice\<close>

text \<open>
  \<^verbatim>\<open>DataFrame.iloc[ind]\<close> as scikit-learn's \<^verbatim>\<open>_safe_indexing\<close> uses it: the rows
  at the positions \<open>ind\<close>, in that order, each with its row label. The positions come
  from a permutation of \<open>[0..<n]\<close> and are in range.
\<close>

definition take_rows :: "dataframe \<Rightarrow> nat list \<Rightarrow> dataframe" where
  "take_rows data ind =
     data\<lparr>index := map (\<lambda>i. index data ! i) ind, rows := map (\<lambda>i. rows data ! i) ind\<rparr>"

text \<open>
  \<^verbatim>\<open>sklearn.model_selection.train_test_split(X, Y, test_size=t)\<close> with the defaults
  \<^verbatim>\<open>train_size=None, random_state=None, shuffle=True, stratify=None\<close>:
  \<^item> X and Y of different length: ValueError (\<^verbatim>\<open>check_consistent_length\<close>);
  \<^item> a float \<^verbatim>\<open>test_size\<close> outside (0, 1): ValueError;
  \<^item> \<^verbatim>\<open>n_test = ceil(test_size * n_samples)\<close>, \<^verbatim>\<open>n_train = n_samples - n_test\<close>,
    and ValueError when \<^verbatim>\<open>n_train\<close> is 0 (\<^verbatim>\<open>_validate_shuffle_split\<close>);
  \<^item> \<^verbatim>\<open>permutation = rng.permutation(n_samples)\<close>,
    \<^verbatim>\<open>ind_test = permutation[:n_test]\<close>,
    \<^verbatim>\<open>ind_train = permutation[n_test:(n_test + n_train)]\<close> (\<^verbatim>\<open>ShuffleSplit\<close>);
  \<^item> the result is \<^verbatim>\<open>[X[train], X[test], Y[train], Y[test]]\<close>.
  No \<^verbatim>\<open>random_state\<close> is passed, so \<^verbatim>\<open>rng\<close> is NumPy's global generator; the
  permutation it yields on this call is the argument \<open>permutation\<close> of the model.
\<close>

definition n_test_of :: "real \<Rightarrow> nat \<Rightarrow> nat" where
  "n_test_of test_size n_samples = nat \<lceil>test_size * real n_samples\<rceil>"

definition validate_shuffle_split :: "nat \<Rightarrow> real \<Rightarrow> error + (nat \<times> nat)" where
  "validate_shuffle_split n_samples test_size =
     (if test_size \<le> 0 \<or> test_size \<ge> 1 then Inl ValueError
      else
        (let n_test = n_test_of test_size n_samples;
             n_train = n_samples - n_test
         in if n_train = 0 then Inl ValueError else Inr (n_train, n_test)))"

definition train_test_split ::
  "dataframe \<Rightarrow> dataframe \<Rightarrow> real \<Rightarrow> nat list
     \<Rightarrow> error + (dataframe \<times> dataframe \<times> dataframe \<times> dataframe)" where
  "train_test_split X Y test_size permutation =
     (let n_samples = length (rows X) in
      if length (rows Y) \<noteq> n_samples then Inl ValueError
      else
        (case validate_shuffle_split n_samples test_size of
           Inl e \<Rightarrow> Inl e
         | Inr (n_train, n_test) \<Rightarrow>
             (let ind_test = take n_test permutation;
                  ind_train = take n_train (drop n_test permutation)
              in Inr (take_rows X ind_train, take_rows X ind_test,
                      take_rows Y ind_train, take_rows Y ind_test))))"

text \<open>
  \<^verbatim>\<open>
  X_train, X_test, Y_train, Y_test = sklearn.model_selection.train_test_split(X, Y, test_size=0.33)
  X_train, X_val, Y_train, Y_val = sklearn.model_selection.train_test_split(
      X_train, Y_train, test_size=0.33)
  \<close>
  The result lists the six frames the cell leaves behind:
  \<open>(X_train, X_val, X_test, Y_train, Y_val, Y_test)\<close>. \<open>two_splits\<close> is the cell
  with the two \<^verbatim>\<open>test_size\<close> arguments left open, \<open>split_cell\<close> the cell as it is
  written.
\<close>

text \<open>
  The rows of a labelled dataset: the row label, the feature cells (from X) and the label
  cells (from Y) of each row.
\<close>

definition dataset_rows :: "dataframe \<Rightarrow> dataframe \<Rightarrow> (nat \<times> real list \<times> real list) list" where
  "dataset_rows X Y = zip (index X) (zip (rows X) (rows Y))"

definition two_splits ::
  "dataframe \<Rightarrow> dataframe \<Rightarrow> real \<Rightarrow> real \<Rightarrow> nat list \<Rightarrow> nat list
     \<Rightarrow> error + (dataframe \<times> dataframe \<times> dataframe \<times> dataframe \<times> dataframe \<times> dataframe)" where
  "two_splits X Y test_size validation_size permutation1 permutation2 =
     (case train_test_split X Y test_size permutation1 of
        Inl e \<Rightarrow> Inl e
      | Inr (X_train, X_test, Y_train, Y_test) \<Rightarrow>
          (case train_test_split X_train Y_train validation_size permutation2 of
             Inl e \<Rightarrow> Inl e
           | Inr (X_train', X_val, Y_train', Y_val) \<Rightarrow>
               Inr (X_train', X_val, X_test, Y_train', Y_val, Y_test)))"

definition split_cell ::
  "dataframe \<Rightarrow> dataframe \<Rightarrow> nat list \<Rightarrow> nat list
     \<Rightarrow> error + (dataframe \<times> dataframe \<times> dataframe \<times> dataframe \<times> dataframe \<times> dataframe)" where
  "split_cell X Y permutation1 permutation2 =
     two_splits X Y (33 / 100) (33 / 100) permutation1 permutation2"

section \<open>Scoring: the two importance cells\<close>

text \<open>
  The scoring cells call scikit-learn and XGBoost only. The library functions they call
  are parameters of the model, collected in a record; \<open>'xgb\<close> and \<open>'knn\<close> are the
  fitted models. A library call returns its value (\<open>Inr\<close>) or raises (\<open>Inl\<close>), and
  an exception ends the cell: with the default \<^verbatim>\<open>n_neighbors=5\<close>, for one,
  scoring a \<^verbatim>\<open>KNeighborsRegressor\<close> fitted on fewer than five samples raises
  ValueError. \<^verbatim>\<open>make_regression(n_samples, n_features, n_informative, random_state)\<close>
  seeds its own generator from \<^verbatim>\<open>random_state\<close> and is a function of its arguments.
  \<^verbatim>\<open>permutation_importance\<close> is called without \<^verbatim>\<open>random_state\<close> and draws its
  shuffles from NumPy's global generator, whose state at the call is the argument of
  type \<open>'rng\<close>; the field stands for its \<^verbatim>\<open>importances_mean\<close> under
  \<^verbatim>\<open>scoring="neg_mean_squared_error"\<close>. \<^verbatim>\<open>feature_importances_\<close> reads an
  attribute of the fitted model.
\<close>

record ('xgb, 'knn, 'rng) libraries =
  make_regression :: "nat \<Rightarrow> nat \<Rightarrow> nat \<Rightarrow> nat \<Rightarrow> error + (real list list \<times> real list)"
  XGBRegressor_fit :: "real list list \<Rightarrow> real list \<Rightarrow> error + 'xgb"
  feature_importances :: "'xgb \<Rightarrow> real list"
  KNeighborsRegressor_fit :: "real list list \<Rightarrow> real list \<Rightarrow> error + 'knn"
  permutation_importance ::
    "'knn \<Rightarrow> real list list \<Rightarrow> real list \<Rightarrow> 'rng \<Rightarrow> error + real list"

text \<open>
  \<^verbatim>\<open>
  X_data, y_label = make_regression(
      n_samples=X_train.shape[0], n_features=X_train.shape[1], n_informative=10, random_state=1)
  xgboost_model = XGBRegressor()
  xgboost_model.fit(X_data, y_label)
  feature_importances_xgboost = xgboost_model.feature_importances_
  \<close>
\<close>

definition feature_importances_xgboost ::
  "('xgb, 'knn, 'rng) libraries \<Rightarrow> dataframe \<Rightarrow> dataframe \<Rightarrow> error + real list" where
  "feature_importances_xgboost lib X_train Y_train =
     (case make_regression lib (fst (shape X_train)) (snd (shape X_train)) 10 1 of
        Inl e \<Rightarrow> Inl e
      | Inr (X_data, y_label) \<Rightarrow>
          (case XGBRegressor_fit lib X_data y_label of
             Inl e \<Rightarrow> Inl e
           | Inr xgboost_model \<Rightarrow> Inr (feature_importances lib xgboost_model)))"

text \<open>
  \<^verbatim>\<open>
  X_data, y_label = make_regression(
      n_samples=X_train.shape[0], n_features=X_train.shape[1], n_informative=10, random_state=1)
  k_nn_model = KNeighborsRegressor()
  k_nn_model.fit(X_data, y_label)
  feature_importances_permutations = permutation_importance(
      k_nn_model, X_data, y_label, scoring="neg_mean_squared_error").importances_mean
  \<close>
\<close>

definition feature_importances_permutations ::
  "('xgb, 'knn, 'rng) libraries \<Rightarrow> 'rng \<Rightarrow> dataframe \<Rightarrow> dataframe \<Rightarrow> error + real list" where
  "feature_importances_permutations lib rng X_train Y_train =
     (case make_regression lib (fst (shape X_train)) (snd (shape X_train)) 10 1 of
        Inl e \<Rightarrow> Inl e
      | Inr (X_data, y_label) \<Rightarrow>
          (case KNeighborsRegressor_fit lib X_data y_label of
             Inl e \<Rightarrow> Inl e
           | Inr k_nn_model \<Rightarrow> permutation_importance lib k_nn_model X_data y_label rng))"

section \<open>Serialisation: \<^verbatim>\<open>train.csv\<close> and \<^verbatim>\<open>validation.csv\<close>\<close>

text \<open>
  \<^verbatim>\<open>pd.concat([left, right], axis=1)\<close> for two frames with the same row labels in the
  same order: the columns of \<open>left\<close>, then those of \<open>right\<close>, row by row. The notebook
  concatenates \<^verbatim>\<open>Y_train\<close> with \<^verbatim>\<open>X_train\<close> and \<^verbatim>\<open>Y_val\<close> with \<^verbatim>\<open>X_val\<close>,
  which come out of one \<^verbatim>\<open>train_test_split\<close> call with equal row labels. For frames
  whose row labels differ pandas aligns the rows by label and fills the gaps with NaN;
  that case has no counterpart in this model (\<open>None\<close>).
\<close>

definition concat_axis1 :: "dataframe \<Rightarrow> dataframe \<Rightarrow> dataframe option" where
  "concat_axis1 left right =
     (if index left = index right
      then Some \<lparr>index = index left, columns = columns left @ columns right,
                 rows = map (\<lambda>(l, r). l @ r) (zip (rows left) (rows right))\<rparr>
      else None)"

text \<open>Python's \<^verbatim>\<open>sep.join(fields)\<close>.\<close>

fun join :: "string \<Rightarrow> string list \<Rightarrow> string" where
  "join sep [] = []"
| "join sep [x] = x"
| "join sep (x # y # ys) = x @ sep @ join sep (y # ys)"

definition comma :: char where
  "comma = CHR '',''"

definition newline :: char where
  "newline = CHR 0x0A"

text \<open>
  \<^verbatim>\<open>DataFrame.to_csv(path, header=False, index=False)\<close>: no header line and no row
  labels; each row is its cells, formatted and separated by commas, and ends with a
  newline. \<open>fmt\<close> is the text pandas writes for a float cell (the shortest decimal that
  reads back as the same float); it is a parameter of the model. Such a text holds no
  comma, quote or newline, so the writer quotes nothing.
\<close>

definition csv_line :: "(real \<Rightarrow> string) \<Rightarrow> real list \<Rightarrow> string" where
  "csv_line fmt r = join [comma] (map fmt r) @ [newline]"

definition to_csv :: "(real \<Rightarrow> string) \<Rightarrow> dataframe \<Rightarrow> string" where
  "to_csv fmt data = concat (map (csv_line fmt) (rows data))"

text \<open>
  \<^verbatim>\<open>
  pd.concat([Y_train, X_train], axis=1).to_csv(
      os.path.join(data_dir, "train.csv"), header=False, index=False)
  pd.concat([Y_val, X_val], axis=1).to_csv(
      os.path.join(data_dir, "validation.csv"), header=False, index=False)
  \<close>
  The result is the content of the two files.
\<close>

definition csv_cell ::
  "(real \<Rightarrow> string) \<Rightarrow> dataframe \<Rightarrow> dataframe \<Rightarrow> dataframe \<Rightarrow> dataframe
     \<Rightarrow> (string \<times> string) option" where
  "csv_cell fmt Y_train X_train Y_val X_val =
     (case concat_axis1 Y_train X_train of
        None \<Rightarrow> None
      | Some train \<Rightarrow>
          (case concat_axis1 Y_val X_val of
             None \<Rightarrow> None
           | Some validation \<Rightarrow> Some (to_csv fmt train, to_csv fmt validation)))"

text \<open>
  Reading a file back "under the label-first convention", in the words of the
  specification (the notebook has no reader): the text is cut into lines at newlines, a
  line into fields at commas; the first field of a line is the label, the others are the
  features. \<open>parse\<close> reads one cell.
\<close>

fun split_on :: "char \<Rightarrow> string \<Rightarrow> string list" where
  "split_on sep [] = [[]]"
| "split_on sep (c # cs) =
     (if c = sep then [] # split_on sep cs
      else (c # hd (split_on sep cs)) # tl (split_on sep cs))"

definition csv_lines :: "string \<Rightarrow> string list" where
  "csv_lines text =
     (let pieces = split_on newline text
      in if last pieces = [] then butlast pieces else pieces)"

definition parse_line_label_first ::
  "(string \<Rightarrow> real option) \<Rightarrow> string \<Rightarrow> (real \<times> real list) option" where
  "parse_line_label_first parse line =
     (case those (map parse (split_on comma line)) of
        Some (label # features) \<Rightarrow> Some (label, features)
      | _ \<Rightarrow> None)"

definition parse_label_first ::
  "(string \<Rightarrow> real option) \<Rightarrow> string \<Rightarrow> (real \<times> real list) list option" where
  "parse_label_first parse text = those (map (parse_line_label_first parse) (csv_lines text))"

text \<open>The rows that a label frame and a feature frame hold together: label, then features.\<close>

definition labelled_rows :: "dataframe \<Rightarrow> dataframe \<Rightarrow> (real \<times> real list) list" where
  "labelled_rows Y X = map (\<lambda>(y, x). (hd y, x)) (zip (rows Y) (rows X))"

definition cells :: "dataframe \<Rightarrow> real set" where
  "cells data = (\<Union>r \<in> set (rows data). set r)"

section \<open>Concrete inputs\<close>

text \<open>The scenario of the specification: features a, b, c with scores 0.5, 0.01, 0.2.\<close>

definition abc_frame :: dataframe where
  "abc_frame = \<lparr>index = [0, 1], columns = [''a'', ''b'', ''c''],
                 rows = [[1, 2, 3], [4, 5, 6]]\<rparr>"

definition abc_scores :: "real list" where
  "abc_scores = [5 / 10, 1 / 100, 2 / 10]"

text \<open>A frame with the same shape as \<open>abc_frame\<close> and other labels and cells.\<close>

definition xyz_frame :: dataframe where
  "xyz_frame = \<lparr>index = [0, 1], columns = [''x'', ''y'', ''z''],
                 rows = [[7, 8, 9], [1, 1, 1]]\<rparr>"

definition two_labels :: dataframe where
  "two_labels = \<lparr>index = [0, 1], columns = [''0''], rows = [[10], [20]]\<rparr>"

definition other_labels :: dataframe where
  "other_labels = \<lparr>index = [0, 1], columns = [''0''], rows = [[0], [1]]\<rparr>"

text \<open>A dataset of three rows, the smallest that the two splits accept.\<close>

definition three_rows_X :: dataframe where
  "three_rows_X = \<lparr>index = [0, 1, 2], columns = [''a'', ''b''],
                    rows = [[1, 2], [3, 4], [5, 6]]\<rparr>"

definition three_rows_Y :: dataframe where
  "three_rows_Y = \<lparr>index = [0, 1, 2], columns = [''0''], rows = [[10], [20], [30]]\<rparr>"

text \<open>Two training splits of six rows and three columns, with their labels.\<close>

definition six_rows_A :: dataframe where
  "six_rows_A = \<lparr>index = [0, 1, 2, 3, 4, 5], columns = [''a'', ''b'', ''c''],
                  rows = [[1, 2, 3], [4, 5, 6], [7, 8, 9], [1, 0, 1], [2, 2, 2], [3, 1, 4]]\<rparr>"

definition six_labels_A :: dataframe where
  "six_labels_A = \<lparr>index = [0, 1, 2, 3, 4, 5], columns = [''0''],
                    rows = [[10], [20], [30], [40], [50], [60]]\<rparr>"

definition six_rows_B :: dataframe where
  "six_rows_B = \<lparr>index = [0, 1, 2, 3, 4, 5], columns = [''x'', ''y'', ''z''],
                  rows = [[0, 0, 1], [0, 1, 0], [1, 0, 0], [1, 1, 0], [0, 1, 1], [1, 1, 1]]\<rparr>"

definition six_labels_B :: dataframe where
  "six_labels_B = \<lparr>index = [0, 1, 2, 3, 4, 5], columns = [''0''],
                    rows = [[0], [1], [0], [1], [0], [1]]\<rparr>"

text \<open>
  An instance of the library record, to run the scoring cells on. It keeps of the
  libraries what the cells rely on: the generated data have the requested shape, a
  fitted model knows how many samples and features it saw, there is one score per
  feature, the nearest-neighbour model cannot be scored on fewer than five samples
  (ValueError), and the permutation scores follow the state of the generator. The
  numbers are not those scikit-learn and XGBoost compute.
\<close>

definition n_features_of :: "real list list \<Rightarrow> nat" where
  "n_features_of X_data = (case X_data of [] \<Rightarrow> 0 | r # _ \<Rightarrow> length r)"

definition stand_in :: "(nat \<times> nat, nat \<times> nat, nat) libraries" where
  "stand_in =
     \<lparr>make_regression = (\<lambda>n_samples n_features n_informative random_state.
          Inr (replicate n_samples (replicate n_features 0), replicate n_samples 0)),
      XGBRegressor_fit = (\<lambda>X_data y_label. Inr (length X_data, n_features_of X_data)),
      feature_importances = (\<lambda>(n, k). replicate k (1 / real k)),
      KNeighborsRegressor_fit = (\<lambda>X_data y_label. Inr (length X_data, n_features_of X_data)),
      permutation_importance = (\<lambda>(n, k) X_data y_label rng.
          if n < 5 then Inl ValueError else Inr (replicate k (real rng)))\<rparr>"

text \<open>A cell format for the whole numbers 0 to 9, to run the serialisation on.\<close>

definition digit_fmt :: "real \<Rightarrow> string" where
  "digit_fmt v =
     (if v = 1 then ''1'' else if v = 2 then ''2'' else if v = 3 then ''3''
      else if v = 4 then ''4'' else if v = 5 then ''5'' else if v = 6 then ''6''
      else if v = 7 then ''7'' else if v = 8 then ''8'' else if v = 9 then ''9''
      else ''0'')"

definition digit_parse :: "string \<Rightarrow> real option" where
  "digit_parse s =
     (if s = ''0'' then Some 0 else if s = ''1'' then Some 1 else if s = ''2'' then Some 2
      else if s = ''3'' then Some 3 else if s = ''4'' then Some 4
      else if s = ''5'' then Some 5 else if s = ''6'' then Some 6
      else if s = ''7'' then Some 7 else if s = ''8'' then Some 8
      else if s = ''9'' then Some 9 else None)"

definition digit_labels :: dataframe where
  "digit_labels = \<lparr>index = [0, 1], columns = [''0''], rows = [[7], [8]]\<rparr>"

section \<open>Pruning: facts\<close>

lemma collect_features_filter:
  "collect_features pairs threshold acc
     = acc @ map fst (filter (\<lambda>pair. snd pair \<le> threshold) pairs)"
  by (induction pairs arbitrary: acc) simp_all

lemma features_to_remove_filter:
  "features_to_remove lst data threshold
     = map fst (filter (\<lambda>pair. snd pair \<le> threshold) (zip (columns data) lst))"
  by (simp add: features_to_remove_def collect_features_filter)

lemma features_to_remove_are_columns:
  "set (features_to_remove lst data threshold) \<subseteq> set (columns data)"
  by (auto simp: features_to_remove_filter dest: set_zip_leftD)

lemma features_to_remove_same_columns:
  "columns data' = columns data
     \<Longrightarrow> features_to_remove lst data' threshold = features_to_remove lst data threshold"
  by (simp add: features_to_remove_def)

lemma drop_columns_not_inplace:
  assumes "set labels \<subseteq> set (columns self)"
  shows "drop_columns self labels False = Inr (self, Some (reduced self labels))"
proof -
  have "filter (\<lambda>l. l \<notin> set (columns self)) labels = []"
    using assms by (auto simp: filter_empty_conv)
  then show ?thesis by (simp add: drop_columns_def)
qed

lemma remove_features_unchanged:
  "remove_features lst data threshold = Inr ((), data)"
  by (simp add: remove_features_def Let_def
      drop_columns_not_inplace [OF features_to_remove_are_columns])

lemma prune_cell_unchanged:
  "prune_cell lst X_train X_val X_test threshold = Inr (X_train, X_val, X_test)"
  by (simp add: prune_cell_def remove_features_unchanged)

text \<open>
  The frame that \<^verbatim>\<open>drop\<close> returns, and that \<^verbatim>\<open>remove_features\<close> lets go of, is the
  one the docstring describes: it keeps the columns whose score is above the threshold
  (and those past the end of the score list), in their order.
\<close>

lemma columns_reduced_scores:
  assumes "distinct (columns data)" and "length lst = length (columns data)"
  shows "columns (reduced data (features_to_remove lst data threshold))
           = map fst (filter (\<lambda>pair. \<not> snd pair \<le> threshold) (zip (columns data) lst))"
proof -
  have "filter (\<lambda>c. c \<notin> set (map fst (filter (\<lambda>pair. snd pair \<le> threshold) (zip cols lst)))) cols
          = map fst (filter (\<lambda>pair. \<not> snd pair \<le> threshold) (zip cols lst))"
    if "distinct cols" and "length lst = length cols" for cols :: "string list"
    using that
  proof (induction cols arbitrary: lst)
    case Nil
    then show ?case by simp
  next
    case (Cons c cols)
    then obtain v vs where lst: "lst = v # vs" by (cases lst) auto
    have notin: "c \<notin> set (map fst (filter (\<lambda>pair. snd pair \<le> threshold) (zip cols vs)))"
      using Cons.prems(1) by (auto dest: set_zip_leftD)
    have ih: "filter (\<lambda>c. c \<notin> set (map fst (filter (\<lambda>pair. snd pair \<le> threshold) (zip cols vs)))) cols
          = map fst (filter (\<lambda>pair. \<not> snd pair \<le> threshold) (zip cols vs))"
      using Cons.prems by (intro Cons.IH) (simp_all add: lst)
    have tail: "filter (\<lambda>x. x \<noteq> c \<and> P x) cols = filter P cols" for P
      using Cons.prems(1) by (intro filter_cong) auto
    show ?case using notin ih by (simp add: lst tail)
  qed
  then show ?thesis
    using assms by (simp add: reduced_def features_to_remove_filter)
qed

lemma abc_xyz_columns_differ: "set (columns abc_frame) \<noteq> set (columns xyz_frame)"
proof -
  have "''a'' \<in> set (columns abc_frame)" by (simp add: abc_frame_def)
  moreover have "''a'' \<notin> set (columns xyz_frame)" by (simp add: xyz_frame_def)
  ultimately show ?thesis by blast
qed

section \<open>Ranking: facts\<close>

lemma ranked_descending:
  "sorted_wrt (\<lambda>p q. snd q \<le> snd p) (show_ranked_feature_importance_list scores data)"
proof -
  let ?ys = "sort_key snd (rev (zip (columns data) scores))"
  have "sorted (map snd ?ys)" by (rule sorted_sort_key)
  then have "sorted_wrt (\<lambda>p q. snd p \<le> snd q) ?ys" by (simp add: sorted_wrt_map)
  then have "sorted_wrt (\<lambda>p q. snd q \<le> snd p) (rev ?ys)" by (simp add: sorted_wrt_rev)
  then show ?thesis by (simp add: show_ranked_feature_importance_list_def sorted_py_def)
qed

lemma ranked_same_pairs:
  "mset (show_ranked_feature_importance_list scores data) = mset (zip (columns data) scores)"
  by (simp add: show_ranked_feature_importance_list_def sorted_py_def)

lemma ranked_stable:
  "filter (\<lambda>p. snd p = k) (show_ranked_feature_importance_list scores data)
     = filter (\<lambda>p. snd p = k) (zip (columns data) scores)"
  by (simp add: show_ranked_feature_importance_list_def sorted_py_def
      rev_filter [symmetric] sort_key_stable)

section \<open>Splitting: facts\<close>

lemma n_test_of_less: "2 \<le> n \<Longrightarrow> n_test_of (33 / 100) n < n"
proof -
  assume n: "2 \<le> n"
  let ?x = "(33 / 100 :: real) * real n"
  have "of_int \<lceil>?x\<rceil> < ?x + 1" by linarith
  also have "\<dots> \<le> real n" using n by simp
  finally have "\<lceil>?x\<rceil> < int n" by linarith
  then show ?thesis unfolding n_test_of_def by linarith
qed

lemma n_train_of_ge2: "3 \<le> n \<Longrightarrow> 2 \<le> n - n_test_of (33 / 100) n"
proof -
  assume n: "3 \<le> n"
  let ?x = "(33 / 100 :: real) * real n"
  have "of_int \<lceil>?x\<rceil> < ?x + 1" by linarith
  also have "\<dots> < real n - 1" using n by simp
  finally have "\<lceil>?x\<rceil> < int n - 1" by linarith
  then show ?thesis unfolding n_test_of_def by linarith
qed

lemma take_rows_simps [simp]:
  "index (take_rows data ind) = map (\<lambda>i. index data ! i) ind"
  "rows (take_rows data ind) = map (\<lambda>i. rows data ! i) ind"
  "columns (take_rows data ind) = columns data"
  by (simp_all add: take_rows_def)

lemma train_test_split_returns:
  assumes "length (rows Y) = length (rows X)" and "0 < t" and "t < 1"
    and "n_test_of t (length (rows X)) < length (rows X)"
    and "length p = length (rows X)"
  shows "train_test_split X Y t p =
           Inr (take_rows X (drop (n_test_of t (length (rows X))) p),
                take_rows X (take (n_test_of t (length (rows X))) p),
                take_rows Y (drop (n_test_of t (length (rows X))) p),
                take_rows Y (take (n_test_of t (length (rows X))) p))"
  using assms by (simp add: train_test_split_def validate_shuffle_split_def Let_def)

lemma dataset_rows_take_rows:
  "dataset_rows (take_rows X ind) (take_rows Y ind)
     = map (\<lambda>i. (index X ! i, rows X ! i, rows Y ! i)) ind"
  by (induction ind) (simp_all add: dataset_rows_def)

lemma dataset_rows_nth:
  assumes "length (index X) = length (rows X)" and "length (rows Y) = length (rows X)"
  shows "map (\<lambda>i. (index X ! i, rows X ! i, rows Y ! i)) [0..<length (rows X)] = dataset_rows X Y"
  using assms by (auto simp: dataset_rows_def intro!: nth_equalityI)

lemma mset_take_drop_map:
  "mset (map f (drop k p)) + mset (map f (take k p)) = mset (map f p)"
proof -
  have "mset (map f p) = mset (map f (take k p @ drop k p))" by simp
  also have "\<dots> = mset (map f (drop k p)) + mset (map f (take k p))"
    unfolding map_append mset_append by (simp add: add.commute)
  finally show ?thesis by simp
qed

lemma split_rows_partition:
  assumes "length (index X) = length (rows X)" and "length (rows Y) = length (rows X)"
    and "mset p = mset [0..<length (rows X)]"
  shows "mset (dataset_rows (take_rows X (drop k p)) (take_rows Y (drop k p)))
       + mset (dataset_rows (take_rows X (take k p)) (take_rows Y (take k p)))
       = mset (dataset_rows X Y)"
proof -
  let ?f = "\<lambda>i. (index X ! i, rows X ! i, rows Y ! i)"
  have "mset (map ?f p) = mset (map ?f [0..<length (rows X)])"
    using assms(3) by (metis mset_map)
  then show ?thesis
    by (simp add: dataset_rows_take_rows mset_take_drop_map
        dataset_rows_nth [OF assms(1,2)] del: mset_map)
qed

lemma two_stage_partition:
  assumes wf: "length (index X) = length (rows X)" and len: "length (rows Y) = length (rows X)"
    and p1: "mset p1 = mset [0..<length (rows X)]"
    and p2: "mset p2 = mset [0..<length (rows X) - k1]"
  shows "mset (dataset_rows (take_rows (take_rows X (drop k1 p1)) (drop k2 p2))
                            (take_rows (take_rows Y (drop k1 p1)) (drop k2 p2)))
       + mset (dataset_rows (take_rows (take_rows X (drop k1 p1)) (take k2 p2))
                            (take_rows (take_rows Y (drop k1 p1)) (take k2 p2)))
       + mset (dataset_rows (take_rows X (take k1 p1)) (take_rows Y (take k1 p1)))
       = mset (dataset_rows X Y)"
proof -
  let ?X1 = "take_rows X (drop k1 p1)" and ?Y1 = "take_rows Y (drop k1 p1)"
  have len1: "length p1 = length (rows X)"
    using p1 by (metis mset_eq_length length_upt diff_zero)
  have "length (rows ?X1) = length (rows X) - k1" by (simp add: len1)
  then have "mset p2 = mset [0..<length (rows ?X1)]" using p2 by simp
  moreover have "length (index ?X1) = length (rows ?X1)" by simp
  moreover have "length (rows ?Y1) = length (rows ?X1)" by simp
  ultimately have "mset (dataset_rows (take_rows ?X1 (drop k2 p2)) (take_rows ?Y1 (drop k2 p2)))
       + mset (dataset_rows (take_rows ?X1 (take k2 p2)) (take_rows ?Y1 (take k2 p2)))
       = mset (dataset_rows ?X1 ?Y1)"
    by (intro split_rows_partition)
  then show ?thesis using split_rows_partition [OF wf len p1, of k1] by simp
qed

lemma two_splits_returns:
  assumes len: "length (rows Y) = length (rows X)"
    and t1: "0 < t1" "t1 < 1" and t2: "0 < t2" "t2 < 1"
    and k1: "n_test_of t1 (length (rows X)) < length (rows X)"
    and k2: "n_test_of t2 (length (rows X) - n_test_of t1 (length (rows X)))
               < length (rows X) - n_test_of t1 (length (rows X))"
    and p1: "length p1 = length (rows X)"
    and p2: "length p2 = length (rows X) - n_test_of t1 (length (rows X))"
  shows "two_splits X Y t1 t2 p1 p2 =
     (let k1 = n_test_of t1 (length (rows X));
          k2 = n_test_of t2 (length (rows X) - k1)
      in Inr (take_rows (take_rows X (drop k1 p1)) (drop k2 p2),
              take_rows (take_rows X (drop k1 p1)) (take k2 p2),
              take_rows X (take k1 p1),
              take_rows (take_rows Y (drop k1 p1)) (drop k2 p2),
              take_rows (take_rows Y (drop k1 p1)) (take k2 p2),
              take_rows Y (take k1 p1)))"
proof -
  let ?n = "length (rows X)"
  let ?k1 = "n_test_of t1 ?n"
  let ?X1 = "take_rows X (drop ?k1 p1)" and ?Y1 = "take_rows Y (drop ?k1 p1)"
  have s1: "train_test_split X Y t1 p1 =
      Inr (?X1, take_rows X (take ?k1 p1), ?Y1, take_rows Y (take ?k1 p1))"
    using len t1 k1 p1 by (intro train_test_split_returns) simp_all
  have n1: "length (rows ?X1) = ?n - ?k1" by (simp add: p1)
  have s2: "train_test_split ?X1 ?Y1 t2 p2 =
      Inr (take_rows ?X1 (drop (n_test_of t2 (length (rows ?X1))) p2),
           take_rows ?X1 (take (n_test_of t2 (length (rows ?X1))) p2),
           take_rows ?Y1 (drop (n_test_of t2 (length (rows ?X1))) p2),
           take_rows ?Y1 (take (n_test_of t2 (length (rows ?X1))) p2))"
    using t2 k2 p2 n1 by (intro train_test_split_returns) simp_all
  show ?thesis
    unfolding two_splits_def s1 by (simp only: sum.case prod.case s2 n1 Let_def)
qed

lemma split_cell_returns:
  assumes len: "length (rows Y) = length (rows X)" and n: "3 \<le> length (rows X)"
    and p1: "length p1 = length (rows X)"
    and p2: "length p2 = length (rows X) - n_test_of (33 / 100) (length (rows X))"
  shows "split_cell X Y p1 p2 =
     (let k1 = n_test_of (33 / 100) (length (rows X));
          k2 = n_test_of (33 / 100) (length (rows X) - k1)
      in Inr (take_rows (take_rows X (drop k1 p1)) (drop k2 p2),
              take_rows (take_rows X (drop k1 p1)) (take k2 p2),
              take_rows X (take k1 p1),
              take_rows (take_rows Y (drop k1 p1)) (drop k2 p2),
              take_rows (take_rows Y (drop k1 p1)) (take k2 p2),
              take_rows Y (take k1 p1)))"
proof -
  have k1: "n_test_of (33 / 100) (length (rows X)) < length (rows X)"
    using n by (intro n_test_of_less) simp
  have "2 \<le> length (rows X) - n_test_of (33 / 100) (length (rows X))"
    using n by (rule n_train_of_ge2)
  then have k2: "n_test_of (33 / 100) (length (rows X) - n_test_of (33 / 100) (length (rows X)))
      < length (rows X) - n_test_of (33 / 100) (length (rows X))"
    by (rule n_test_of_less)
  show ?thesis
    unfolding split_cell_def
    by (rule two_splits_returns [OF len _ _ _ _ k1 k2 p1 p2]) simp_all
qed

lemma split_cell_too_small:
  assumes "length (rows X) < 3" and "length p1 = length (rows X)"
  shows "split_cell X Y p1 p2 = Inl ValueError"
proof -
  consider "length (rows X) = 0" | "length (rows X) = 1" | "length (rows X) = 2"
    using assms by linarith
  then show ?thesis
  proof cases
    case 1 then show ?thesis
      by (simp add: split_cell_def two_splits_def train_test_split_def validate_shuffle_split_def n_test_of_def Let_def)
  next
    case 2 then show ?thesis
      by (simp add: split_cell_def two_splits_def train_test_split_def validate_shuffle_split_def n_test_of_def Let_def)
  next
    case 3 then show ?thesis using assms(2)
      by (simp add: split_cell_def two_splits_def train_test_split_def validate_shuffle_split_def n_test_of_def Let_def split: sum.splits)
  qed
qed

lemma disjoint_parts:
  assumes "mset a + mset b + mset c = mset d" and "distinct d"
  shows "set a \<inter> set b = {} \<and> set a \<inter> set c = {} \<and> set b \<inter> set c = {}
       \<and> set a \<union> set b \<union> set c = set d"
proof -
  have m: "mset (a @ b @ c) = mset d" using assms(1) by (simp add: add.assoc)
  then have "distinct (a @ b @ c)" using assms(2) by (metis mset_eq_imp_distinct_iff)
  moreover have "set (a @ b @ c) = set d" using m by (rule mset_eq_setD)
  ultimately show ?thesis by auto
qed

lemma n_test_of_small:
  "n_test_of (33 / 100) 3 = 1" "n_test_of (33 / 100) 2 = 1"
  by (simp_all add: n_test_of_def)

section \<open>Serialisation: facts\<close>

lemma split_on_not_Nil [simp]: "split_on sep s \<noteq> []"
  by (cases s) simp_all

lemma split_on_no_sep: "sep \<notin> set x \<Longrightarrow> split_on sep x = [x]"
  by (induction x) auto

lemma split_on_append:
  "sep \<notin> set x \<Longrightarrow> split_on sep (x @ sep # rest) = x # split_on sep rest"
  by (induction x) auto

lemma split_on_join:
  assumes "fs \<noteq> []" and "\<forall>f \<in> set fs. sep \<notin> set f"
  shows "split_on sep (join [sep] fs) = fs"
  using assms
proof (induction "[sep]" fs rule: join.induct)
  case 1
  then show ?case by simp
next
  case (2 x)
  then show ?case by (simp add: split_on_no_sep)
next
  case (3 x y ys)
  then show ?case by (simp add: split_on_append)
qed

lemma split_on_lines:
  assumes "\<forall>l \<in> set ls. sep \<notin> set l"
  shows "split_on sep (concat (map (\<lambda>l. l @ [sep]) ls)) = ls @ [[]]"
  using assms by (induction ls) (simp_all add: split_on_append)

lemma set_join_subset: "set (join sep fs) \<subseteq> set sep \<union> (\<Union>f \<in> set fs. set f)"
  by (induction sep fs rule: join.induct) auto

lemma csv_lines_to_csv:
  assumes "\<forall>v \<in> cells data. newline \<notin> set (fmt v)"
  shows "csv_lines (to_csv fmt data) = map (\<lambda>r. join [comma] (map fmt r)) (rows data)"
proof -
  let ?ls = "map (\<lambda>r. join [comma] (map fmt r)) (rows data)"
  have "\<forall>l \<in> set ?ls. newline \<notin> set l"
  proof
    fix l assume "l \<in> set ?ls"
    then obtain r where r: "r \<in> set (rows data)" and l: "l = join [comma] (map fmt r)" by auto
    have "set l \<subseteq> {comma} \<union> (\<Union>v \<in> set r. set (fmt v))"
      unfolding l using set_join_subset [of "[comma]" "map fmt r"] by simp
    moreover have "\<forall>v \<in> set r. newline \<notin> set (fmt v)"
      using assms r by (auto simp: cells_def)
    moreover have "newline \<noteq> comma" by (simp add: newline_def comma_def)
    ultimately show "newline \<notin> set l" by auto
  qed
  then have "split_on newline (concat (map (\<lambda>l. l @ [newline]) ?ls)) = ?ls @ [[]]"
    by (rule split_on_lines)
  moreover have "to_csv fmt data = concat (map (\<lambda>l. l @ [newline]) ?ls)"
    by (simp add: to_csv_def comp_def csv_line_def [abs_def])
  ultimately show ?thesis by (simp add: csv_lines_def)
qed

lemma those_map_Some:
  assumes "\<forall>x \<in> set xs. f x = Some (g x)"
  shows "those (map f xs) = Some (map g xs)"
  using assms by (induction xs) simp_all

lemma parse_line_roundtrip:
  assumes "\<forall>v \<in> set (label # features). comma \<notin> set (fmt v) \<and> parse (fmt v) = Some v"
  shows "parse_line_label_first parse (join [comma] (map fmt (label # features)))
           = Some (label, features)"
proof -
  have "split_on comma (join [comma] (map fmt (label # features))) = map fmt (label # features)"
    using assms by (intro split_on_join) auto
  moreover have "those (map parse (map fmt (label # features))) = Some (map (\<lambda>v. v) (label # features))"
    unfolding map_map using assms by (intro those_map_Some) auto
  ultimately show ?thesis by (simp add: parse_line_label_first_def)
qed

lemma concat_axis1_rows:
  assumes "concat_axis1 Y X = Some data"
  shows "rows data = map (\<lambda>(y, x). y @ x) (zip (rows Y) (rows X))"
  using assms by (auto simp: concat_axis1_def split: if_splits)

lemma label_first_roundtrip:
  assumes cat: "concat_axis1 Y X = Some data"
    and one: "\<forall>y \<in> set (rows Y). length y = 1"
    and len: "length (rows Y) = length (rows X)"
    and ok: "\<forall>v \<in> cells Y \<union> cells X.
               comma \<notin> set (fmt v) \<and> newline \<notin> set (fmt v) \<and> parse (fmt v) = Some v"
  shows "csv_lines (to_csv fmt data)
           = map (\<lambda>(label, features). join [comma] (fmt label # map fmt features))
               (labelled_rows Y X)"
    and "parse_label_first parse (to_csv fmt data) = Some (labelled_rows Y X)"
proof -
  have rows: "rows data = map (\<lambda>(y, x). y @ x) (zip (rows Y) (rows X))"
    using cat by (rule concat_axis1_rows)
  have cells: "cells data \<subseteq> cells Y \<union> cells X"
    unfolding rows cells_def by (auto dest: set_zip_leftD set_zip_rightD) 
  have split: "y @ x = hd y # x" if "(y, x) \<in> set (zip (rows Y) (rows X))" for y x
  proof -
    have "length y = 1" using one that by (auto dest: set_zip_leftD)
    then show ?thesis by (cases y) simp_all
  qed
  have rows': "rows data = map (\<lambda>(label, features). label # features) (labelled_rows Y X)"
    unfolding rows labelled_rows_def map_map using split by (intro map_cong) auto
  have nl: "\<forall>v \<in> cells data. newline \<notin> set (fmt v)" using cells ok by blast
  show lines: "csv_lines (to_csv fmt data)
           = map (\<lambda>(label, features). join [comma] (fmt label # map fmt features))
               (labelled_rows Y X)"
    unfolding csv_lines_to_csv [OF nl] rows' map_map by (intro map_cong) auto
  have "\<forall>p \<in> set (labelled_rows Y X).
      parse_line_label_first parse
        ((\<lambda>(label, features). join [comma] (fmt label # map fmt features)) p) = Some p"
  proof
    fix p assume p: "p \<in> set (labelled_rows Y X)"
    obtain label features where lf: "p = (label, features)" by (cases p)
    have "label # features \<in> set (rows data)" using p unfolding rows' lf by force 
    then have "set (label # features) \<subseteq> cells data"
      unfolding cells_def by (intro UN_upper)
    then have "\<forall>v \<in> set (label # features). comma \<notin> set (fmt v) \<and> parse (fmt v) = Some v"
      using cells ok by blast
    then show "parse_line_label_first parse
        ((\<lambda>(label, features). join [comma] (fmt label # map fmt features)) p) = Some p"
      unfolding lf using parse_line_roundtrip [of label features fmt parse] by simp
  qed
  then have "those (map (parse_line_label_first parse)
       (map (\<lambda>(label, features). join [comma] (fmt label # map fmt features)) (labelled_rows Y X)))
     = Some (map (\<lambda>p. p) (labelled_rows Y X))"
    unfolding map_map by (intro those_map_Some) simp
  then show "parse_label_first parse (to_csv fmt data) = Some (labelled_rows Y X)"
    by (simp add: parse_label_first_def lines)
qed

lemma wf_frame_rows_one:
  assumes "wf_frame Y" and "length (columns Y) = 1"
  shows "\<forall>y \<in> set (rows Y). length y = 1"
  using assms by (simp add: wf_frame_def list_all_iff)

lemma concat_axis1_same_index:
  "index Y = index X \<Longrightarrow> \<exists>data. concat_axis1 Y X = Some data"
  by (simp add: concat_axis1_def)

lemma labelled_rows_length:
  assumes "wf_frame Y" and "wf_frame X" and "index Y = index X"
  shows "length (labelled_rows Y X) = length (rows X)"
  using assms by (simp add: labelled_rows_def wf_frame_def)

lemma label_first_file:
  assumes wfY: "wf_frame Y" and wfX: "wf_frame X" and idx: "index Y = index X"
    and one: "length (columns Y) = 1"
    and ok: "\<forall>v \<in> cells Y \<union> cells X.
               comma \<notin> set (fmt v) \<and> newline \<notin> set (fmt v) \<and> parse (fmt v) = Some v"
  shows "\<exists>data. concat_axis1 Y X = Some data
    \<and> csv_lines (to_csv fmt data)
        = map (\<lambda>(label, features). join [comma] (fmt label # map fmt features))
            (labelled_rows Y X)
    \<and> length (csv_lines (to_csv fmt data)) = length (rows X)
    \<and> parse_label_first parse (to_csv fmt data) = Some (labelled_rows Y X)"
proof -
  obtain data where cat: "concat_axis1 Y X = Some data"
    using concat_axis1_same_index [OF idx] by blast
  have len: "length (rows Y) = length (rows X)"
    using wfY wfX idx by (simp add: wf_frame_def)
  note rt = label_first_roundtrip [OF cat wf_frame_rows_one [OF wfY one] len ok]
  show ?thesis
    using cat rt labelled_rows_length [OF wfY wfX idx] by simp
qed

lemma digit_cells_ok:
  "\<forall>v \<in> {1, 2, 3, 4, 5, 6, 7, 8 :: real}.
     comma \<notin> set (digit_fmt v) \<and> newline \<notin> set (digit_fmt v)
     \<and> digit_parse (digit_fmt v) = Some v"
  by (simp add: digit_fmt_def digit_parse_def comma_def newline_def)

lemma digit_frames_cells:
  "cells digit_labels \<union> cells abc_frame \<union> cells digit_labels \<union> cells abc_frame
     = {1, 2, 3, 4, 5, 6, 7, 8}"
  by (auto simp: cells_def digit_labels_def abc_frame_def)

section \<open>Scoring: facts\<close>

lemma shape_abc_xyz: "shape abc_frame = shape xyz_frame"
  by (simp add: shape_def abc_frame_def xyz_frame_def)

lemma shape_six_rows: "shape six_rows_A = (6, 3)" "shape six_rows_B = (6, 3)"
  by (simp_all add: shape_def six_rows_A_def six_rows_B_def)

lemma stand_in_permutations_six:
  assumes "shape X_train = (6, 3)"
  shows "feature_importances_permutations stand_in rng X_train Y_train
           = Inr [real rng, real rng, real rng]"
  using assms
  by (simp add: feature_importances_permutations_def stand_in_def n_features_of_def
      numeral_3_eq_3 eval_nat_numeral)

lemma scores_depend_on_shape:
  assumes "shape X_train' = shape X_train"
  shows "feature_importances_xgboost lib X_train' Y_train'
           = feature_importances_xgboost lib X_train Y_train"
    and "feature_importances_permutations lib rng X_train' Y_train'
           = feature_importances_permutations lib rng X_train Y_train"
  using assms
  by (simp_all add: feature_importances_xgboost_def feature_importances_permutations_def)

section \<open>The claims\<close>

subsection \<open>Pruning\<close>

text \<open>
  C1. Pruning is to remove exactly the features whose score is at most the threshold;
  with the features a, b, c scored 0.5, 0.01, 0.2 and the threshold 0.01 the pruned
  dataset is to keep a and c only. \<^verbatim>\<open>remove_features\<close> picks b for removal and calls
  \<^verbatim>\<open>drop\<close>, but not in place and without keeping what it returns: after the call the
  frame still has the columns a, b, c.
\<close>

theorem remove_features_keeps_scenario_column:
  "features_to_remove abc_scores abc_frame (1 / 100) = [''b'']
   \<and> remove_features abc_scores abc_frame (1 / 100)
       = Inr ((), \<lparr>index = [0, 1], columns = [''a'', ''b'', ''c''],
                   rows = [[1, 2, 3], [4, 5, 6]]\<rparr>)"
proof
  show "features_to_remove abc_scores abc_frame (1 / 100) = [''b'']"
    by (simp add: features_to_remove_def abc_frame_def abc_scores_def)
  show "remove_features abc_scores abc_frame (1 / 100)
       = Inr ((), \<lparr>index = [0, 1], columns = [''a'', ''b'', ''c''],
                   rows = [[1, 2, 3], [4, 5, 6]]\<rparr>)"
    unfolding remove_features_unchanged by (simp add: abc_frame_def)
qed

text \<open>
  C3. When the three aligned splits (equal column labels in equal order) are pruned with
  one score list and one threshold, the features picked for removal are the same for
  each split, and after the cell the three splits have the same columns in the same
  order. The same holds for the three frames that \<^verbatim>\<open>drop\<close> returns.
\<close>

theorem prune_cell_keeps_alignment:
  assumes "columns X_val = columns X_train" and "columns X_test = columns X_train"
  shows "features_to_remove lst X_val threshold = features_to_remove lst X_train threshold
    \<and> features_to_remove lst X_test threshold = features_to_remove lst X_train threshold
    \<and> columns (reduced X_val (features_to_remove lst X_val threshold))
        = columns (reduced X_train (features_to_remove lst X_train threshold))
    \<and> columns (reduced X_test (features_to_remove lst X_test threshold))
        = columns (reduced X_train (features_to_remove lst X_train threshold))
    \<and> (\<exists>X_train' X_val' X_test'.
          prune_cell lst X_train X_val X_test threshold = Inr (X_train', X_val', X_test')
          \<and> columns X_val' = columns X_train' \<and> columns X_test' = columns X_train')"
proof -
  have v: "features_to_remove lst X_val threshold = features_to_remove lst X_train threshold"
    using assms(1) by (rule features_to_remove_same_columns)
  have t: "features_to_remove lst X_test threshold = features_to_remove lst X_train threshold"
    using assms(2) by (rule features_to_remove_same_columns)
  show ?thesis
    using assms by (simp add: v t reduced_def prune_cell_unchanged)
qed

text \<open>The hypotheses of C3 hold for a frame and a second frame with the same columns.\<close>

theorem prune_cell_keeps_alignment_witness:
  "columns (abc_frame\<lparr>index := [2, 3]\<rparr>) = columns abc_frame
   \<and> (\<exists>X_train' X_val' X_test'.
         prune_cell abc_scores abc_frame (abc_frame\<lparr>index := [2, 3]\<rparr>)
           (abc_frame\<lparr>index := [4, 5]\<rparr>) (1 / 100) = Inr (X_train', X_val', X_test')
         \<and> columns X_val' = columns X_train' \<and> columns X_test' = columns X_train')"
proof -
  have v: "columns (abc_frame\<lparr>index := [2, 3]\<rparr>) = columns abc_frame" by simp
  have t: "columns (abc_frame\<lparr>index := [4, 5]\<rparr>) = columns abc_frame" by simp
  show ?thesis
    using prune_cell_keeps_alignment [OF v t, of abc_scores "1 / 100"] v by blast
qed

text \<open>
  C7, as stated: pruning datasets whose feature-name sets differ raises
  DataAlignmentError. The cell compares no column labels: on two frames with different
  columns every call returns and nothing is raised.
\<close>

theorem prune_cell_no_alignment_error:
  "set (columns abc_frame) \<noteq> set (columns xyz_frame)
   \<and> prune_cell abc_scores abc_frame xyz_frame abc_frame (1 / 100)
       = Inr (abc_frame, xyz_frame, abc_frame)"
  by (simp add: prune_cell_unchanged abc_xyz_columns_differ)

text \<open>
  C7, amended. If pruning is invoked on datasets whose feature-name sets differ from one
  another, no error is raised: the three calls return and every dataset is unchanged.
\<close>

theorem prune_cell_differing_columns:
  assumes "set (columns X_train) \<noteq> set (columns X_val)
         \<or> set (columns X_train) \<noteq> set (columns X_test)
         \<or> set (columns X_val) \<noteq> set (columns X_test)"
  shows "prune_cell lst X_train X_val X_test threshold = Inr (X_train, X_val, X_test)"
  by (rule prune_cell_unchanged)

text \<open>The hypothesis of amended C7 holds for two frames with different columns.\<close>

theorem prune_cell_differing_columns_witness:
  "set (columns abc_frame) \<noteq> set (columns xyz_frame)
   \<and> prune_cell abc_scores abc_frame xyz_frame abc_frame (1 / 100)
       = Inr (abc_frame, xyz_frame, abc_frame)"
proof -
  have d: "set (columns abc_frame) \<noteq> set (columns xyz_frame)
      \<or> set (columns abc_frame) \<noteq> set (columns abc_frame)
      \<or> set (columns xyz_frame) \<noteq> set (columns abc_frame)"
    using abc_xyz_columns_differ by simp
  show ?thesis
    using abc_xyz_columns_differ
      prune_cell_differing_columns [OF d, of abc_scores "1 / 100"] by simp
qed

text \<open>
  C9. For every frame, score list and threshold, \<^verbatim>\<open>remove_features\<close> returns None and
  leaves the frame passed as \<^verbatim>\<open>data\<close> as it was, columns and cells: \<^verbatim>\<open>drop\<close> does
  not raise, leaves its receiver alone and returns the reduced frame, which the function
  binds to nothing.
\<close>

theorem remove_features_leaves_data:
  "remove_features lst data threshold = Inr ((), data)
   \<and> drop_columns data (features_to_remove lst data threshold) False
       = Inr (data, Some (reduced data (features_to_remove lst data threshold)))"
  by (simp add: remove_features_unchanged
      drop_columns_not_inplace [OF features_to_remove_are_columns])

subsection \<open>Ranking\<close>

text \<open>
  C4. The ranked list holds the (feature, score) pairs of the input, sorted by score in
  descending order; pairs of equal score keep the order of the columns. Features A, B, C
  with scores 0.5, 0.5, 0.2 rank as A, B, C.
\<close>

theorem ranked_descending_stable:
  "sorted_wrt (\<lambda>p q. snd q \<le> snd p) (show_ranked_feature_importance_list scores data)
   \<and> mset (show_ranked_feature_importance_list scores data) = mset (zip (columns data) scores)
   \<and> (\<forall>k. filter (\<lambda>p. snd p = k) (show_ranked_feature_importance_list scores data)
            = filter (\<lambda>p. snd p = k) (zip (columns data) scores))
   \<and> show_ranked_feature_importance_list [5 / 10, 5 / 10, 2 / 10]
        \<lparr>index = [], columns = [''A'', ''B'', ''C''], rows = []\<rparr>
       = [(''A'', 5 / 10), (''B'', 5 / 10), (''C'', 2 / 10)]"
proof (intro conjI allI)
  show "show_ranked_feature_importance_list [5 / 10, 5 / 10, 2 / 10]
        \<lparr>index = [], columns = [''A'', ''B'', ''C''], rows = []\<rparr>
       = [(''A'', 5 / 10), (''B'', 5 / 10), (''C'', 2 / 10)]"
    by (simp add: show_ranked_feature_importance_list_def sorted_py_def)
qed (rule ranked_descending ranked_same_pairs ranked_stable)+

subsection \<open>Splitting\<close>

text \<open>
  C5. For every dataset and all valid fractions (each in (0, 1) and leaving at least one
  row for training, else \<^verbatim>\<open>train_test_split\<close> raises ValueError; with the
  notebook's 0.33 and 0.33 these are the datasets of at least three rows), whatever
  permutations the generator yields, the two splits return three subsets whose sizes add
  up to the size of the dataset; every row of the dataset is in exactly one of them (as
  multisets of labelled rows, and, the row labels being distinct, as pairwise disjoint
  sets whose union is the dataset). Features and labels are split alike.
\<close>

theorem two_splits_partition:
  assumes wf: "length (index X) = length (rows X)"
    and len: "length (rows Y) = length (rows X)"
    and dist: "distinct (index X)"
    and t1: "0 < test_size" "test_size < 1"
    and t2: "0 < validation_size" "validation_size < 1"
    and k1: "n_test_of test_size (length (rows X)) < length (rows X)"
    and k2: "n_test_of validation_size
                 (length (rows X) - n_test_of test_size (length (rows X)))
               < length (rows X) - n_test_of test_size (length (rows X))"
    and p1: "mset permutation1 = mset [0..<length (rows X)]"
    and p2: "mset permutation2
               = mset [0..<length (rows X) - n_test_of test_size (length (rows X))]"
  shows "\<exists>X_train X_val X_test Y_train Y_val Y_test.
      two_splits X Y test_size validation_size permutation1 permutation2
        = Inr (X_train, X_val, X_test, Y_train, Y_val, Y_test)
    \<and> length (rows X_train) + length (rows X_val) + length (rows X_test) = length (rows X)
    \<and> length (rows Y_train) = length (rows X_train)
    \<and> length (rows Y_val) = length (rows X_val)
    \<and> length (rows Y_test) = length (rows X_test)
    \<and> mset (dataset_rows X_train Y_train) + mset (dataset_rows X_val Y_val)
        + mset (dataset_rows X_test Y_test) = mset (dataset_rows X Y)
    \<and> set (dataset_rows X_train Y_train) \<inter> set (dataset_rows X_val Y_val) = {}
    \<and> set (dataset_rows X_train Y_train) \<inter> set (dataset_rows X_test Y_test) = {}
    \<and> set (dataset_rows X_val Y_val) \<inter> set (dataset_rows X_test Y_test) = {}
    \<and> set (dataset_rows X_train Y_train) \<union> set (dataset_rows X_val Y_val)
        \<union> set (dataset_rows X_test Y_test) = set (dataset_rows X Y)"
proof -
  let ?n = "length (rows X)"
  let ?k1 = "n_test_of test_size ?n"
  let ?k2 = "n_test_of validation_size (?n - ?k1)"
  let ?X_train = "take_rows (take_rows X (drop ?k1 permutation1)) (drop ?k2 permutation2)"
  let ?X_val = "take_rows (take_rows X (drop ?k1 permutation1)) (take ?k2 permutation2)"
  let ?X_test = "take_rows X (take ?k1 permutation1)"
  let ?Y_train = "take_rows (take_rows Y (drop ?k1 permutation1)) (drop ?k2 permutation2)"
  let ?Y_val = "take_rows (take_rows Y (drop ?k1 permutation1)) (take ?k2 permutation2)"
  let ?Y_test = "take_rows Y (take ?k1 permutation1)"
  have l1: "length permutation1 = ?n"
    using p1 by (metis mset_eq_length length_upt diff_zero)
  have l2: "length permutation2 = ?n - ?k1"
    using p2 by (metis mset_eq_length length_upt diff_zero)
  have ret: "two_splits X Y test_size validation_size permutation1 permutation2
      = Inr (?X_train, ?X_val, ?X_test, ?Y_train, ?Y_val, ?Y_test)"
    using two_splits_returns [OF len t1 t2 k1 k2 l1 l2] by (simp add: Let_def)
  have lens: "length (rows ?X_train) + length (rows ?X_val) + length (rows ?X_test) = ?n"
    using k1 by (simp add: l1 l2)
  have part: "mset (dataset_rows ?X_train ?Y_train) + mset (dataset_rows ?X_val ?Y_val)
        + mset (dataset_rows ?X_test ?Y_test) = mset (dataset_rows X Y)"
    by (rule two_stage_partition [OF wf len p1 p2])
  have "distinct (dataset_rows X Y)"
    unfolding dataset_rows_def using dist by (rule distinct_zipI1)
  with part have disj:
    "set (dataset_rows ?X_train ?Y_train) \<inter> set (dataset_rows ?X_val ?Y_val) = {}
    \<and> set (dataset_rows ?X_train ?Y_train) \<inter> set (dataset_rows ?X_test ?Y_test) = {}
    \<and> set (dataset_rows ?X_val ?Y_val) \<inter> set (dataset_rows ?X_test ?Y_test) = {}
    \<and> set (dataset_rows ?X_train ?Y_train) \<union> set (dataset_rows ?X_val ?Y_val)
        \<union> set (dataset_rows ?X_test ?Y_test) = set (dataset_rows X Y)"
    by (rule disjoint_parts)
  show ?thesis
    by (intro exI conjI, rule ret, rule lens, simp, simp, simp, rule part,
        rule disj [THEN conjunct1], rule disj [THEN conjunct2, THEN conjunct1],
        rule disj [THEN conjunct2, THEN conjunct2, THEN conjunct1],
        rule disj [THEN conjunct2, THEN conjunct2, THEN conjunct2])
qed

text \<open>
  The hypotheses of C5 hold for the cell as written (both fractions 0.33) on the dataset
  of three rows.
\<close>

theorem two_splits_partition_witness:
  "\<exists>X_train X_val X_test Y_train Y_val Y_test.
      split_cell three_rows_X three_rows_Y [2, 0, 1] [1, 0]
        = Inr (X_train, X_val, X_test, Y_train, Y_val, Y_test)
    \<and> length (rows X_train) + length (rows X_val) + length (rows X_test)
        = length (rows three_rows_X)
    \<and> length (rows Y_train) = length (rows X_train)
    \<and> length (rows Y_val) = length (rows X_val)
    \<and> length (rows Y_test) = length (rows X_test)
    \<and> mset (dataset_rows X_train Y_train) + mset (dataset_rows X_val Y_val)
        + mset (dataset_rows X_test Y_test) = mset (dataset_rows three_rows_X three_rows_Y)
    \<and> set (dataset_rows X_train Y_train) \<inter> set (dataset_rows X_val Y_val) = {}
    \<and> set (dataset_rows X_train Y_train) \<inter> set (dataset_rows X_test Y_test) = {}
    \<and> set (dataset_rows X_val Y_val) \<inter> set (dataset_rows X_test Y_test) = {}
    \<and> set (dataset_rows X_train Y_train) \<union> set (dataset_rows X_val Y_val)
        \<union> set (dataset_rows X_test Y_test) = set (dataset_rows three_rows_X three_rows_Y)"
  unfolding split_cell_def
proof (rule two_splits_partition)
  have l: "length (rows three_rows_X) = 3" by (simp add: three_rows_X_def)
  show "length (index three_rows_X) = length (rows three_rows_X)"
    by (simp add: three_rows_X_def)
  show "length (rows three_rows_Y) = length (rows three_rows_X)"
    by (simp add: three_rows_X_def three_rows_Y_def)
  show "distinct (index three_rows_X)" by (simp add: three_rows_X_def)
  show "(0 :: real) < 33 / 100" and "(33 / 100 :: real) < 1" by simp_all
  show "(0 :: real) < 33 / 100" and "(33 / 100 :: real) < 1" by simp_all
  show "n_test_of (33 / 100) (length (rows three_rows_X)) < length (rows three_rows_X)"
    unfolding l n_test_of_small by simp
  show "n_test_of (33 / 100)
      (length (rows three_rows_X) - n_test_of (33 / 100) (length (rows three_rows_X)))
      < length (rows three_rows_X) - n_test_of (33 / 100) (length (rows three_rows_X))"
    unfolding l n_test_of_small by (simp add: n_test_of_small)
  show "mset [2, 0, 1] = mset [0..<length (rows three_rows_X)]"
    unfolding l by (simp add: upt_rec)
  show "mset [1, 0] = mset [0..<length (rows three_rows_X)
      - n_test_of (33 / 100) (length (rows three_rows_X))]"
    unfolding l n_test_of_small by (simp add: upt_rec)
qed

text \<open>
  C6, as stated: two runs of the split with the same seed produce identical outputs. The
  cell passes no seed (\<^verbatim>\<open>random_state\<close>) to \<^verbatim>\<open>train_test_split\<close>: the permutations
  come from NumPy's global generator, and two runs on the same dataset that draw
  different permutations return different splits.
\<close>

theorem split_cell_not_reproducible:
  "split_cell three_rows_X three_rows_Y [0, 1, 2] [0, 1]
     \<noteq> split_cell three_rows_X three_rows_Y [2, 0, 1] [1, 0]"
  by (simp add: split_cell_def two_splits_def train_test_split_def validate_shuffle_split_def n_test_of_def
      three_rows_X_def three_rows_Y_def take_rows_def Let_def)

text \<open>
  C6, amended. The split is reproducible given the permutations that the generator
  yields: two runs on the same dataset that draw the same two permutations produce
  identical outputs, which are the rows of the dataset at the positions read off the
  permutations (test: the first \<open>n_test\<close> positions of the first permutation;
  validation and training: the remaining positions of the first permutation, picked by
  the second).
\<close>

theorem split_cell_determined_by_permutations:
  assumes "length (rows Y) = length (rows X)" and "3 \<le> length (rows X)"
    and "length permutation1 = length (rows X)"
    and "length permutation2
           = length (rows X) - n_test_of (33 / 100) (length (rows X))"
    and "permutation1' = permutation1" and "permutation2' = permutation2"
  shows "split_cell X Y permutation1' permutation2' = split_cell X Y permutation1 permutation2
    \<and> split_cell X Y permutation1 permutation2 =
       (let k1 = n_test_of (33 / 100) (length (rows X));
            k2 = n_test_of (33 / 100) (length (rows X) - k1)
        in Inr (take_rows (take_rows X (drop k1 permutation1)) (drop k2 permutation2),
                take_rows (take_rows X (drop k1 permutation1)) (take k2 permutation2),
                take_rows X (take k1 permutation1),
                take_rows (take_rows Y (drop k1 permutation1)) (drop k2 permutation2),
                take_rows (take_rows Y (drop k1 permutation1)) (take k2 permutation2),
                take_rows Y (take k1 permutation1)))"
  using assms(5,6) split_cell_returns [OF assms(1-4)] by simp

text \<open>The hypotheses of amended C6 hold for the dataset of three rows.\<close>

theorem split_cell_determined_by_permutations_witness:
  "split_cell three_rows_X three_rows_Y [2, 0, 1] [1, 0]
     = Inr (take_rows (take_rows three_rows_X [0, 1]) [0],
            take_rows (take_rows three_rows_X [0, 1]) [1],
            take_rows three_rows_X [2],
            take_rows (take_rows three_rows_Y [0, 1]) [0],
            take_rows (take_rows three_rows_Y [0, 1]) [1],
            take_rows three_rows_Y [2])"
proof -
  have l: "length (rows three_rows_X) = 3" by (simp add: three_rows_X_def)
  have "length (rows three_rows_Y) = length (rows three_rows_X)"
    by (simp add: three_rows_X_def three_rows_Y_def)
  moreover have "3 \<le> length (rows three_rows_X)" by (simp add: l)
  moreover have "length [2, 0, 1 :: nat] = length (rows three_rows_X)" by (simp add: l)
  moreover have "length [1, 0 :: nat]
      = length (rows three_rows_X) - n_test_of (33 / 100) (length (rows three_rows_X))"
    unfolding l n_test_of_small by simp
  ultimately have "split_cell three_rows_X three_rows_Y [2, 0, 1] [1, 0] =
       (let k1 = n_test_of (33 / 100) (length (rows three_rows_X));
            k2 = n_test_of (33 / 100) (length (rows three_rows_X) - k1)
        in Inr (take_rows (take_rows three_rows_X (drop k1 [2, 0, 1])) (drop k2 [1, 0]),
                take_rows (take_rows three_rows_X (drop k1 [2, 0, 1])) (take k2 [1, 0]),
                take_rows three_rows_X (take k1 [2, 0, 1]),
                take_rows (take_rows three_rows_Y (drop k1 [2, 0, 1])) (drop k2 [1, 0]),
                take_rows (take_rows three_rows_Y (drop k1 [2, 0, 1])) (take k2 [1, 0]),
                take_rows three_rows_Y (take k1 [2, 0, 1])))"
    using split_cell_determined_by_permutations [of three_rows_Y three_rows_X
        "[2, 0, 1]" "[1, 0]" "[2, 0, 1]" "[1, 0]"]
    by blast
  then show ?thesis
    unfolding l n_test_of_small Let_def by (simp add: n_test_of_small)
qed

subsection \<open>Serialisation\<close>

text \<open>
  C8. For label frames of one column and feature frames on the same rows, whose cells
  the cell format writes without comma or newline and \<open>parse\<close> reads back, the cell
  writes two files; each has one line per row and nothing else (no header), a line being
  the label followed by the features in column order, separated by commas; and reading a
  file back label-first gives the labels and features of the frames.
\<close>

theorem csv_cell_label_first:
  assumes "wf_frame Y_train" and "wf_frame X_train" and "wf_frame Y_val" and "wf_frame X_val"
    and "index Y_train = index X_train" and "index Y_val = index X_val"
    and "length (columns Y_train) = 1" and "length (columns Y_val) = 1"
    and ok: "\<forall>v \<in> cells Y_train \<union> cells X_train \<union> cells Y_val \<union> cells X_val.
               comma \<notin> set (fmt v) \<and> newline \<notin> set (fmt v) \<and> parse (fmt v) = Some v"
  shows "\<exists>train_csv validation_csv.
      csv_cell fmt Y_train X_train Y_val X_val = Some (train_csv, validation_csv)
    \<and> csv_lines train_csv
        = map (\<lambda>(label, features). join [comma] (fmt label # map fmt features))
            (labelled_rows Y_train X_train)
    \<and> length (csv_lines train_csv) = length (rows X_train)
    \<and> parse_label_first parse train_csv = Some (labelled_rows Y_train X_train)
    \<and> csv_lines validation_csv
        = map (\<lambda>(label, features). join [comma] (fmt label # map fmt features))
            (labelled_rows Y_val X_val)
    \<and> length (csv_lines validation_csv) = length (rows X_val)
    \<and> parse_label_first parse validation_csv = Some (labelled_rows Y_val X_val)"
proof -
  have okt: "\<forall>v \<in> cells Y_train \<union> cells X_train.
      comma \<notin> set (fmt v) \<and> newline \<notin> set (fmt v) \<and> parse (fmt v) = Some v"
    using ok by blast
  have okv: "\<forall>v \<in> cells Y_val \<union> cells X_val.
      comma \<notin> set (fmt v) \<and> newline \<notin> set (fmt v) \<and> parse (fmt v) = Some v"
    using ok by blast
  obtain train where t: "concat_axis1 Y_train X_train = Some train"
    "csv_lines (to_csv fmt train)
        = map (\<lambda>(label, features). join [comma] (fmt label # map fmt features))
            (labelled_rows Y_train X_train)"
    "length (csv_lines (to_csv fmt train)) = length (rows X_train)"
    "parse_label_first parse (to_csv fmt train) = Some (labelled_rows Y_train X_train)"
    using label_first_file [OF assms(1,2,5,7) okt] by blast
  obtain validation where v: "concat_axis1 Y_val X_val = Some validation"
    "csv_lines (to_csv fmt validation)
        = map (\<lambda>(label, features). join [comma] (fmt label # map fmt features))
            (labelled_rows Y_val X_val)"
    "length (csv_lines (to_csv fmt validation)) = length (rows X_val)"
    "parse_label_first parse (to_csv fmt validation) = Some (labelled_rows Y_val X_val)"
    using label_first_file [OF assms(3,4,6,8) okv] by blast
  have "csv_cell fmt Y_train X_train Y_val X_val
      = Some (to_csv fmt train, to_csv fmt validation)"
    by (simp add: csv_cell_def t(1) v(1))
  then show ?thesis using t(2-4) v(2-4) by blast
qed

text \<open>The hypotheses of C8 hold for frames of one-digit cells and the digit format.\<close>

theorem csv_cell_label_first_witness:
  "\<exists>train_csv validation_csv.
      csv_cell digit_fmt digit_labels abc_frame digit_labels abc_frame
        = Some (train_csv, validation_csv)
    \<and> length (csv_lines train_csv) = length (rows abc_frame)
    \<and> parse_label_first digit_parse train_csv = Some (labelled_rows digit_labels abc_frame)
    \<and> length (csv_lines validation_csv) = length (rows abc_frame)
    \<and> parse_label_first digit_parse validation_csv
        = Some (labelled_rows digit_labels abc_frame)"
proof -
  have wfY: "wf_frame digit_labels" by (simp add: wf_frame_def digit_labels_def)
  have wfX: "wf_frame abc_frame" by (simp add: wf_frame_def abc_frame_def)
  have idx: "index digit_labels = index abc_frame" by (simp add: digit_labels_def abc_frame_def)
  have one: "length (columns digit_labels) = 1" by (simp add: digit_labels_def)
  have ok: "\<forall>v \<in> cells digit_labels \<union> cells abc_frame \<union> cells digit_labels \<union> cells abc_frame.
     comma \<notin> set (digit_fmt v) \<and> newline \<notin> set (digit_fmt v)
     \<and> digit_parse (digit_fmt v) = Some v"
    unfolding digit_frames_cells by (rule digit_cells_ok)
  show ?thesis
    using csv_cell_label_first [OF wfY wfX wfY wfX idx idx one one ok] by blast
qed

subsection \<open>Scoring\<close>

text \<open>
  C2. The scores are to come from a model fitted on the training split's own features
  and labels. Both cells fit on the output of \<^verbatim>\<open>make_regression\<close> instead and read
  only the shape of \<^verbatim>\<open>X_train\<close>: whatever the libraries compute (or raise), two
  training splits with different cells and different labels get the same scores.
\<close>

theorem scores_ignore_training_data:
  "feature_importances_xgboost lib abc_frame two_labels
      = feature_importances_xgboost lib xyz_frame other_labels
   \<and> feature_importances_permutations lib rng abc_frame two_labels
      = feature_importances_permutations lib rng xyz_frame other_labels
   \<and> rows abc_frame \<noteq> rows xyz_frame \<and> rows two_labels \<noteq> rows other_labels"
proof (intro conjI)
  show "rows abc_frame \<noteq> rows xyz_frame" by (simp add: abc_frame_def xyz_frame_def)
  show "rows two_labels \<noteq> rows other_labels" by (simp add: two_labels_def other_labels_def)
qed (rule scores_depend_on_shape [OF shape_abc_xyz])+

text \<open>
  C10, as stated: two runs on training splits of equal shape produce identical score
  lists, in both variants. \<^verbatim>\<open>permutation_importance\<close> is called without
  \<^verbatim>\<open>random_state\<close>, so its shuffles, and with them its scores, follow the state in
  which the run finds the global generator. On two training splits of six rows and three
  columns (enough samples for the five neighbours), both runs return and a run from
  another generator state returns other scores.
\<close>

theorem permutation_scores_follow_generator:
  "shape six_rows_A = shape six_rows_B
   \<and> \<not> isl (feature_importances_permutations stand_in 0 six_rows_A six_labels_A)
   \<and> \<not> isl (feature_importances_permutations stand_in 1 six_rows_B six_labels_B)
   \<and> feature_importances_permutations stand_in 0 six_rows_A six_labels_A
       \<noteq> feature_importances_permutations stand_in 1 six_rows_B six_labels_B"
  by (simp add: shape_six_rows stand_in_permutations_six)

text \<open>
  C10, amended. In both variants the outcome of the scoring cell (the score list, or the
  exception of a library call) depends on the training split through its row count and
  column count only, not through its cells or labels: two runs on training splits of
  equal shape, the permutation variant started from the same state of the random
  generator, produce identical score lists.
\<close>

theorem scores_depend_on_shape_only:
  assumes "shape X_train' = shape X_train"
  shows "feature_importances_xgboost lib X_train' Y_train'
           = feature_importances_xgboost lib X_train Y_train
    \<and> feature_importances_permutations lib rng X_train' Y_train'
           = feature_importances_permutations lib rng X_train Y_train"
  by (intro conjI scores_depend_on_shape [OF assms])

text \<open>
  The hypothesis of amended C10 holds for the two splits of shape (6, 3); both runs
  return score lists there.
\<close>

theorem scores_depend_on_shape_only_witness:
  "shape six_rows_B = shape six_rows_A
   \<and> feature_importances_xgboost stand_in six_rows_B six_labels_B
       = feature_importances_xgboost stand_in six_rows_A six_labels_A
   \<and> feature_importances_permutations stand_in (5 :: nat) six_rows_B six_labels_B
       = feature_importances_permutations stand_in 5 six_rows_A six_labels_A
   \<and> feature_importances_permutations stand_in (5 :: nat) six_rows_A six_labels_A
       = Inr [5, 5, 5]"
proof -
  have sh: "shape six_rows_B = shape six_rows_A" by (simp add: shape_six_rows)
  show ?thesis
    using scores_depend_on_shape_only [OF sh, of stand_in six_labels_B six_labels_A 5] sh
    by (simp add: stand_in_permutations_six shape_six_rows)
qed

end
